theory Spec2Isabelle
  imports Complex_Main "HOL-Library.Log_Nat"
begin

section \<open>ST3215 servo utilities: discovery report and ID reassignment\<close>

text \<open>
  A shallow embedding of \<^verbatim>\<open>src/cupi/change_id.py\<close> and \<^verbatim>\<open>src/cupi/custom_list.py\<close>.
  The servo driver (the \<^verbatim>\<open>st3215\<close> package) is not part of the repository: it is a
  parameter of the model, a record of operations over a connection state of any type.
  Everything the scripts do to the outside world (importing the driver, opening the
  port, every driver call with what it returned, every \<^verbatim>\<open>print\<close> and \<^verbatim>\<open>input\<close>) is
  recorded, in order, in a trace of events, so that "operation X is never invoked" is a
  statement about the trace.
\<close>

subsection \<open>Python built-ins used by the scripts\<close>

text \<open>
  \<^verbatim>\<open>str.strip\<close>, \<^verbatim>\<open>str.lower\<close> and \<^verbatim>\<open>int(str)\<close> on ASCII text. White space is
  what Python's \<^verbatim>\<open>str.isspace\<close> accepts below 128: the codes 9 to 13, 28 to 31 and 32.
  \<^verbatim>\<open>int\<close> takes an optional sign and decimal digits, single underscores allowed between
  digits, white space allowed around; anything else is a \<^verbatim>\<open>ValueError\<close>, here \<open>None\<close>.
  (The interpreter's limit on the number of digits is not modelled.)
\<close>

definition is_space :: "char \<Rightarrow> bool" where
  "is_space c = (let n = (of_char c :: nat) in (9 \<le> n \<and> n \<le> 13) \<or> (28 \<le> n \<and> n \<le> 32))"

definition py_strip :: "string \<Rightarrow> string" where
  "py_strip s = rev (dropWhile is_space (rev (dropWhile is_space s)))"

definition lower_char :: "char \<Rightarrow> char" where
  "lower_char c = (let n = (of_char c :: nat) in if 65 \<le> n \<and> n \<le> 90 then char_of (n + 32) else c)"

definition py_lower :: "string \<Rightarrow> string" where
  "py_lower s = map lower_char s"

definition digit_val :: "char \<Rightarrow> nat option" where
  "digit_val c = (let n = (of_char c :: nat) in if 48 \<le> n \<and> n \<le> 57 then Some (n - 48) else None)"

fun digits_acc :: "nat \<Rightarrow> string \<Rightarrow> nat option" where
  "digits_acc acc [] = Some acc"
| "digits_acc acc [c] = (case digit_val c of None \<Rightarrow> None | Some v \<Rightarrow> Some (10 * acc + v))"
| "digits_acc acc (c # d # ds) =
     (if c = CHR ''_''
      then (case digit_val d of None \<Rightarrow> None | Some v \<Rightarrow> digits_acc (10 * acc + v) ds)
      else (case digit_val c of None \<Rightarrow> None | Some v \<Rightarrow> digits_acc (10 * acc + v) (d # ds)))"

definition py_nat :: "string \<Rightarrow> nat option" where
  "py_nat s = (case s of [] \<Rightarrow> None
               | c # cs \<Rightarrow> (case digit_val c of None \<Rightarrow> None | Some v \<Rightarrow> digits_acc v cs))"

definition py_int :: "string \<Rightarrow> int option" where
  "py_int s =
     (case py_strip s of
        [] \<Rightarrow> None
      | c # cs \<Rightarrow>
          if c = CHR ''-'' then map_option (\<lambda>n. - int n) (py_nat cs)
          else if c = CHR ''+'' then map_option int (py_nat cs)
          else map_option int (py_nat (c # cs)))"

subsection \<open>The servo driver and the trace\<close>

text \<open>
  The operations the scripts call on the driver object. \<open>ST3215\<close> is the constructor: it
  returns a connection, or raises (\<open>Inl\<close>, with the exception's text). Every other
  operation takes the connection state and returns its answer and the next state.
  \<open>ChangeId\<close> answers \<open>None\<close> on success (Python's \<^verbatim>\<open>None\<close>) and an error detail
  otherwise. The readings answer \<open>None\<close> when the read failed. Voltage and load are
  floats in the driver; the model carries them as the rational they denote.
\<close>

record 's driver =
  ST3215 :: "string \<Rightarrow> string + 's"
  PingServo :: "'s \<Rightarrow> int \<Rightarrow> bool \<times> 's"
  ListServos :: "'s \<Rightarrow> int list \<times> 's"
  ChangeId :: "'s \<Rightarrow> int \<Rightarrow> int \<Rightarrow> string option \<times> 's"
  ReadPosition :: "'s \<Rightarrow> int \<Rightarrow> int option \<times> 's"
  ReadVoltage :: "'s \<Rightarrow> int \<Rightarrow> rat option \<times> 's"
  ReadTemperature :: "'s \<Rightarrow> int \<Rightarrow> int option \<times> 's"
  ReadMode :: "'s \<Rightarrow> int \<Rightarrow> int option \<times> 's"
  ReadLoad :: "'s \<Rightarrow> int \<Rightarrow> rat option \<times> 's"

text \<open>
  One constructor for each \<^verbatim>\<open>print\<close> statement of the two scripts (line numbers are
  those of \<^verbatim>\<open>change_id.py\<close> unless the other file is named), carrying the values
  the statement interpolates (the texts hold symbols outside ASCII and formatted floats,
  so a line is named rather than spelled). A value printed with \<^verbatim>\<open>:.1f\<close> is carried as
  the number of tenths printed.
\<close>

datatype mode_text = Named string | Unknown int

datatype msg =
    Scanning_for_servos                 \<comment> \<open>l.34\<close>
  | No_servos_found                     \<comment> \<open>l.38\<close>
  | Make_sure_powered                   \<comment> \<open>l.39\<close>
  | Found_n_servos nat "int list"       \<comment> \<open>l.43\<close>
  | Connect_only_one                    \<comment> \<open>l.44\<close>
  | Disconnect_all_but_one              \<comment> \<open>l.45\<close>
  | Connecting_to string                \<comment> \<open>l.56\<close>
  | Dashes                              \<comment> \<open>l.57, l.111\<close>
  | Could_not_open string               \<comment> \<open>l.62, l.116\<close>
  | Details string                      \<comment> \<open>l.63, l.117\<close>
  | No_servo_with_id int                \<comment> \<open>l.68\<close>
  | Scanning_whats_connected            \<comment> \<open>l.69\<close>
  | Found_servos_with_ids "int list"    \<comment> \<open>l.72\<close>
  | No_servos_on_bus                    \<comment> \<open>l.74\<close>
  | Id_already_in_use int               \<comment> \<open>l.79\<close>
  | Choose_different_id                 \<comment> \<open>l.80\<close>
  | Changing_servo_id int int           \<comment> \<open>l.84\<close>
  | Id_changed                          \<comment> \<open>l.88\<close>
  | Servo_now_has_id int                \<comment> \<open>l.89\<close>
  | Change_is_permanent                 \<comment> \<open>l.90\<close>
  | Verified_at int                     \<comment> \<open>l.94\<close>
  | Failed_to_change string             \<comment> \<open>l.97\<close>
  | Equals_rule                         \<comment> \<open>l.106, l.108\<close>
  | Interactive_title                   \<comment> \<open>l.107\<close>
  | Serial_port string                  \<comment> \<open>l.109\<close>
  | Important_one_servo                 \<comment> \<open>l.110\<close>
  | Found_servo_with_id int             \<comment> \<open>l.125\<close>
  | Position_steps int                  \<comment> \<open>l.131\<close>
  | Voltage_volts int                   \<comment> \<open>l.133\<close>
  | Current_id int                      \<comment> \<open>l.136\<close>
  | Valid_ids                           \<comment> \<open>l.137\<close>
  | Cancelled                           \<comment> \<open>l.144, l.166\<close>
  | Id_must_be_1_to_253                 \<comment> \<open>l.150\<close>
  | Servo_already_has_id int            \<comment> \<open>l.154\<close>
  | Enter_valid_number                  \<comment> \<open>l.159\<close>
  | About_to_change int int             \<comment> \<open>l.162\<close>
  | Id_changed_to                       \<comment> \<open>l.173\<close>
  | Servo_now_has int                   \<comment> \<open>l.174\<close>
  | Verified_at_new_id                  \<comment> \<open>l.178\<close>
  | Failed_to_change_id string          \<comment> \<open>l.180\<close>
  | Usage                               \<comment> \<open>\<^verbatim>\<open>print_usage()\<close>, l.185\<close>
  | Current_id_out_of_range             \<comment> \<open>l.217\<close>
  | New_id_out_of_range                 \<comment> \<open>l.220\<close>
  | Ids_must_be_integers                \<comment> \<open>l.226\<close>
  | Connecting_to_serial_port string    \<comment> \<open>\<^verbatim>\<open>custom_list.py\<close> l.32\<close>
  | No_servos_found_on_bus              \<comment> \<open>\<^verbatim>\<open>custom_list.py\<close> l.47\<close>
  | Found_servos nat                    \<comment> \<open>\<^verbatim>\<open>custom_list.py\<close> l.50\<close>
  | Servo_id int                        \<comment> \<open>\<^verbatim>\<open>custom_list.py\<close> l.54\<close>
  | Position_line int int               \<comment> \<open>\<^verbatim>\<open>custom_list.py\<close> l.60: steps, tenths of a degree\<close>
  | Voltage_line int                    \<comment> \<open>\<^verbatim>\<open>custom_list.py\<close> l.65\<close>
  | Temperature_line int                \<comment> \<open>\<^verbatim>\<open>custom_list.py\<close> l.70\<close>
  | Mode_line mode_text                 \<comment> \<open>\<^verbatim>\<open>custom_list.py\<close> l.82\<close>
  | Load_line int                       \<comment> \<open>\<^verbatim>\<open>custom_list.py\<close> l.87\<close>
  | Blank                               \<comment> \<open>\<^verbatim>\<open>custom_list.py\<close> l.89\<close>
  | Scan_complete nat                   \<comment> \<open>\<^verbatim>\<open>custom_list.py\<close> l.92\<close>

datatype prompt =
    Enter_new_id                        \<comment> \<open>l.141\<close>
  | Proceed                             \<comment> \<open>l.163\<close>

datatype event =
    EvImport                            \<comment> \<open>\<^verbatim>\<open>from st3215 import ST3215\<close>\<close>
  | EvOpen string                       \<comment> \<open>\<^verbatim>\<open>ST3215(port)\<close>\<close>
  | EvPing int bool                     \<comment> \<open>\<^verbatim>\<open>PingServo(id)\<close> and its answer\<close>
  | EvList "int list"                   \<comment> \<open>\<^verbatim>\<open>ListServos()\<close> and its answer\<close>
  | EvChangeId int int "string option"  \<comment> \<open>\<^verbatim>\<open>ChangeId(a, b)\<close> and its answer\<close>
  | EvReadPosition int "int option"
  | EvReadVoltage int "rat option"
  | EvReadTemperature int "int option"
  | EvReadMode int "int option"
  | EvReadLoad int "rat option"
  | EvPrint msg
  | EvInput prompt                      \<comment> \<open>a call of \<^verbatim>\<open>input\<close>\<close>

datatype exn =
    EnvironmentError string
  | EOFError

fun is_change :: "event \<Rightarrow> bool" where
  "is_change (EvChangeId a b r) = True"
| "is_change e = False"


subsection \<open>Formatting with one decimal\<close>

text \<open>
  \<^verbatim>\<open>f"{x:.1f}"\<close> prints the decimal with one fractional digit nearest to the float's
  exact value, a tie going to the even digit. \<open>format_1f x\<close> is that decimal, counted in
  tenths.
\<close>

definition round_half_even :: "rat \<Rightarrow> int" where
  "round_half_even x =
     (let f = \<lfloor>x\<rfloor>; d = x - of_int f
      in if d < 1 / 2 then f else if 1 / 2 < d then f + 1 else if even f then f else f + 1)"

definition format_1f :: "rat \<Rightarrow> int" where
  "format_1f x = round_half_even (x * 10)"

subsection \<open>\<^verbatim>\<open>change_id.py\<close>\<close>

definition env_error_text :: string where
  "env_error_text =
     ''ST3215_DEV environment variable not set.'' @ [char_of (10 :: nat)] @
     ''Please create a .env file with: ST3215_DEV=/dev/tty.usbmodem5A680113571''"

text \<open>\<^verbatim>\<open>get_serial_port\<close> (l.18): \<^verbatim>\<open>not port\<close> holds for \<^verbatim>\<open>None\<close> and for the empty string.\<close>

definition get_serial_port :: "(string \<rightharpoonup> string) \<Rightarrow> exn + string" where
  "get_serial_port environ =
     (case environ ''ST3215_DEV'' of
        None \<Rightarrow> Inl (EnvironmentError env_error_text)
      | Some port \<Rightarrow> if port = [] then Inl (EnvironmentError env_error_text) else Inr port)"

text \<open>
  \<^verbatim>\<open>find_single_servo\<close> (l.29). The result is the value returned, the next connection
  state and the events of the call.
\<close>

definition find_single_servo :: "'s driver \<Rightarrow> 's \<Rightarrow> int option \<times> 's \<times> event list" where
  "find_single_servo servo_bus s =
     (let (servo_ids, s1) = ListServos servo_bus s;
          t = [EvPrint Scanning_for_servos, EvList servo_ids]
      in if servo_ids = [] then
           (None, s1, t @ [EvPrint No_servos_found, EvPrint Make_sure_powered])
         else if length servo_ids > 1 then
           (None, s1, t @ [EvPrint (Found_n_servos (length servo_ids) servo_ids),
                           EvPrint Connect_only_one, EvPrint Disconnect_all_but_one])
         else (Some (servo_ids ! 0), s1, t))"

text \<open>
  \<^verbatim>\<open>change_servo_id\<close> from l.66 on, once the connection \<open>s\<close> is open: the presence check
  on \<open>current_id\<close>, the check that \<open>new_id\<close> is free (\<^verbatim>\<open>and\<close> does not evaluate its
  second operand when the first is false), the write, the verification.
\<close>

definition change_on_bus :: "'s driver \<Rightarrow> 's \<Rightarrow> int \<Rightarrow> int \<Rightarrow> bool \<times> event list" where
  "change_on_bus servo_bus s current_id new_id =
     (let (present, s1) = PingServo servo_bus s current_id in
      if \<not> present then
        (let (servo_ids, s2) = ListServos servo_bus s1 in
         (False, [EvPing current_id present, EvPrint (No_servo_with_id current_id),
                  EvPrint Scanning_whats_connected, EvList servo_ids,
                  EvPrint (if servo_ids \<noteq> [] then Found_servos_with_ids servo_ids
                           else No_servos_on_bus)]))
      else
        (let (in_use, s2, t2) =
               (if current_id \<noteq> new_id
                then (let (b, s') = PingServo servo_bus s1 new_id in (b, s', [EvPing new_id b]))
                else (False, s1, []))
         in if in_use then
              (False, [EvPing current_id present] @ t2 @
                      [EvPrint (Id_already_in_use new_id), EvPrint Choose_different_id])
            else
              (let (result, s3) = ChangeId servo_bus s2 current_id new_id;
                   t3 = [EvPing current_id present] @ t2 @
                        [EvPrint (Changing_servo_id current_id new_id),
                         EvChangeId current_id new_id result]
               in case result of
                    None \<Rightarrow>
                      (let (verified, s4) = PingServo servo_bus s3 new_id in
                       (True, t3 @ [EvPrint Id_changed, EvPrint (Servo_now_has_id new_id),
                                    EvPrint Change_is_permanent, EvPing new_id verified] @
                                   (if verified then [EvPrint (Verified_at new_id)] else [])))
                  | Some detail \<Rightarrow> (False, t3 @ [EvPrint (Failed_to_change detail)]))))"

text \<open>
  \<^verbatim>\<open>change_servo_id\<close> (l.51): the import, the port, the connection, then the workflow
  on the bus. An \<^verbatim>\<open>EnvironmentError\<close> is not caught: the function raises (\<open>Inl\<close>). A
  failure to open is caught and the function returns \<^verbatim>\<open>False\<close>.
\<close>

definition change_servo_id ::
  "'s driver \<Rightarrow> (string \<rightharpoonup> string) \<Rightarrow> int \<Rightarrow> int \<Rightarrow> (exn + bool) \<times> event list" where
  "change_servo_id servo_bus environ current_id new_id =
     (case get_serial_port environ of
        Inl e \<Rightarrow> (Inl e, [EvImport])
      | Inr port \<Rightarrow>
          (let t = [EvImport, EvPrint (Connecting_to port), EvPrint Dashes, EvOpen port] in
           case ST3215 servo_bus port of
             Inl e \<Rightarrow> (Inr False, t @ [EvPrint (Could_not_open port), EvPrint (Details e)])
           | Inr s \<Rightarrow>
               (let (ok, t') = change_on_bus servo_bus s current_id new_id
                in (Inr ok, t @ t'))))"

text \<open>
  The prompt loop of \<^verbatim>\<open>interactive_mode\<close> (l.139 to l.159). Standard input is the list
  of lines still to be read; \<^verbatim>\<open>input\<close> on an exhausted input raises \<^verbatim>\<open>EOFError\<close>, which
  the loop's \<^verbatim>\<open>except ValueError\<close> does not catch. Each round reads one line, so the
  loop is a recursion on the input. The result says how the loop was left: by the
  \<^verbatim>\<open>return\<close> after \<^verbatim>\<open>q\<close>, by the \<^verbatim>\<open>return\<close> for an unchanged ID, by \<^verbatim>\<open>break\<close> with the
  new ID, or by the exception.
\<close>

datatype entry = Quit | Unchanged | Chosen int | Eof

fun prompt_loop :: "int \<Rightarrow> string list \<Rightarrow> entry \<times> event list \<times> string list" where
  "prompt_loop current_id [] = (Eof, [EvInput Enter_new_id], [])"
| "prompt_loop current_id (line # rest) =
     (let new_id_input = py_strip line in
      if py_lower new_id_input = ''q'' then
        (Quit, [EvInput Enter_new_id, EvPrint Cancelled], rest)
      else
        (case py_int new_id_input of
           None \<Rightarrow>
             (let (r, t, rest') = prompt_loop current_id rest
              in (r, [EvInput Enter_new_id, EvPrint Enter_valid_number] @ t, rest'))
         | Some new_id \<Rightarrow>
             if \<not> (1 \<le> new_id \<and> new_id \<le> 253) then
               (let (r, t, rest') = prompt_loop current_id rest
                in (r, [EvInput Enter_new_id, EvPrint Id_must_be_1_to_253] @ t, rest'))
             else if new_id = current_id then
               (Unchanged, [EvInput Enter_new_id, EvPrint (Servo_already_has_id current_id)], rest)
             else (Chosen new_id, [EvInput Enter_new_id], rest)))"


text \<open>
  \<^verbatim>\<open>interactive_mode\<close> from l.161 on: the confirmation, the write, the verification.
\<close>

definition confirm_and_change ::
  "'s driver \<Rightarrow> 's \<Rightarrow> int \<Rightarrow> int \<Rightarrow> string list \<Rightarrow> (exn + unit) \<times> event list" where
  "confirm_and_change servo_bus s current_id new_id stdin =
     (let t = [EvPrint (About_to_change current_id new_id), EvInput Proceed] in
      case stdin of
        [] \<Rightarrow> (Inl EOFError, t)
      | line # rest \<Rightarrow>
          (let confirm = py_lower (py_strip line) in
           if confirm \<noteq> ''y'' then (Inr (), t @ [EvPrint Cancelled])
           else
             (let (result, s1) = ChangeId servo_bus s current_id new_id;
                  t1 = t @ [EvChangeId current_id new_id result]
              in case result of
                   None \<Rightarrow>
                     (let (verified, s2) = PingServo servo_bus s1 new_id in
                      (Inr (), t1 @ [EvPrint Id_changed_to, EvPrint (Servo_now_has new_id),
                                     EvPing new_id verified] @
                                    (if verified then [EvPrint Verified_at_new_id] else [])))
                 | Some detail \<Rightarrow> (Inr (), t1 @ [EvPrint (Failed_to_change_id detail)]))))"

text \<open>
  \<^verbatim>\<open>interactive_mode\<close> from l.120 to l.159, on the open connection: locate the servo,
  show its position and voltage, ask for the new ID.
\<close>

definition interactive_on_bus ::
  "'s driver \<Rightarrow> 's \<Rightarrow> string list \<Rightarrow> (exn + unit) \<times> event list" where
  "interactive_on_bus servo_bus s stdin =
     (let (found, s1, t1) = find_single_servo servo_bus s in
      case found of
        None \<Rightarrow> (Inr (), t1)
      | Some current_id \<Rightarrow>
          (let (position, s2) = ReadPosition servo_bus s1 current_id;
               (voltage, s3) = ReadVoltage servo_bus s2 current_id;
               t2 = t1 @ [EvPrint (Found_servo_with_id current_id),
                          EvReadPosition current_id position,
                          EvReadVoltage current_id voltage] @
                    (case position of None \<Rightarrow> [] | Some p \<Rightarrow> [EvPrint (Position_steps p)]) @
                    (case voltage of None \<Rightarrow> []
                     | Some v \<Rightarrow> [EvPrint (Voltage_volts (format_1f v))]) @
                    [EvPrint (Current_id current_id), EvPrint Valid_ids];
               (entered, t3, rest) = prompt_loop current_id stdin
           in case entered of
                Eof \<Rightarrow> (Inl EOFError, t2 @ t3)
              | Quit \<Rightarrow> (Inr (), t2 @ t3)
              | Unchanged \<Rightarrow> (Inr (), t2 @ t3)
              | Chosen new_id \<Rightarrow>
                  (let (r, t4) = confirm_and_change servo_bus s3 current_id new_id rest
                   in (r, t2 @ t3 @ t4))))"

text \<open>\<^verbatim>\<open>interactive_mode\<close> (l.101).\<close>

definition interactive_mode ::
  "'s driver \<Rightarrow> (string \<rightharpoonup> string) \<Rightarrow> string list \<Rightarrow> (exn + unit) \<times> event list" where
  "interactive_mode servo_bus environ stdin =
     (case get_serial_port environ of
        Inl e \<Rightarrow> (Inl e, [EvImport])
      | Inr port \<Rightarrow>
          (let t = [EvImport, EvPrint Equals_rule, EvPrint Interactive_title, EvPrint Equals_rule,
                    EvPrint (Serial_port port), EvPrint Important_one_servo, EvPrint Dashes,
                    EvOpen port] in
           case ST3215 servo_bus port of
             Inl e \<Rightarrow> (Inr (), t @ [EvPrint (Could_not_open port), EvPrint (Details e)])
           | Inr s \<Rightarrow>
               (let (r, t') = interactive_on_bus servo_bus s stdin in (r, t @ t'))))"

text \<open>
  The script body (l.206). \<open>argv\<close> is \<^verbatim>\<open>sys.argv\<close>, the script's name first. The process
  ends with an exit status (0 when the script runs to its end) or with an exception
  nobody caught, which the interpreter reports with status 1. \<^verbatim>\<open>sys.exit\<close> raises
  \<^verbatim>\<open>SystemExit\<close>, which \<^verbatim>\<open>except ValueError\<close> lets through; the only \<^verbatim>\<open>ValueError\<close> of
  the \<^verbatim>\<open>try\<close> block is that of \<^verbatim>\<open>int\<close>.
\<close>

datatype outcome = Exit int | Uncaught exn


definition main ::
  "'s driver \<Rightarrow> (string \<rightharpoonup> string) \<Rightarrow> string list \<Rightarrow> string list \<Rightarrow> outcome \<times> event list" where
  "main servo_bus environ argv stdin =
     (if length argv = 1 then
        (case interactive_mode servo_bus environ stdin of
           (Inl e, t) \<Rightarrow> (Uncaught e, t)
         | (Inr u, t) \<Rightarrow> (Exit 0, t))
      else if length argv = 3 then
        (case py_int (argv ! 1) of
           None \<Rightarrow> (Exit 1, [EvPrint Ids_must_be_integers, EvPrint Usage])
         | Some current_id \<Rightarrow>
             (case py_int (argv ! 2) of
                None \<Rightarrow> (Exit 1, [EvPrint Ids_must_be_integers, EvPrint Usage])
              | Some new_id \<Rightarrow>
                  if \<not> (1 \<le> current_id \<and> current_id \<le> 253) then
                    (Exit 1, [EvPrint Current_id_out_of_range])
                  else if \<not> (1 \<le> new_id \<and> new_id \<le> 253) then
                    (Exit 1, [EvPrint New_id_out_of_range])
                  else
                    (case change_servo_id servo_bus environ current_id new_id of
                       (Inl e, t) \<Rightarrow> (Uncaught e, t)
                     | (Inr success, t) \<Rightarrow> (Exit (if success then 0 else 1), t))))
      else (Exit 1, [EvPrint Usage]))"

subsection \<open>\<^verbatim>\<open>custom_list.py\<close>\<close>

text \<open>
  The position is turned into degrees with two float operations, a division and a
  multiplication. A float operation is the exact result rounded to the nearest binary64
  number, a tie going to the even significand: \<open>fl\<close>, for results in the normal range
  (for a position from 1 to 4095 they lie between \<open>2 powi (-12)\<close> and 360; overflow
  and subnormal numbers are out of reach and not modelled). \<open>ilog2 q\<close> is the exponent
  of \<open>q > 0\<close>: the integer \<open>e\<close> with \<open>2 powi e \<le> q < 2 powi (e + 1)\<close>, so that
  \<open>2 powi (e - 52)\<close> is the distance between neighbouring floats at \<open>q\<close>.
\<close>

definition ilog2 :: "rat \<Rightarrow> int" where
  "ilog2 q = (if 1 \<le> q then bitlen \<lfloor>q\<rfloor> - 1 else - bitlen (\<lceil>1 / q\<rceil> - 1))"

definition fl :: "rat \<Rightarrow> rat" where
  "fl x = (if x = 0 then 0
           else (let u = 2 powi (ilog2 \<bar>x\<bar> - 52) in of_int (round_half_even (x / u)) * u))"

text \<open>\<^verbatim>\<open>degrees = (position / 4096) * 360\<close> (l.59).\<close>

definition degrees :: "int \<Rightarrow> rat" where
  "degrees position = fl (fl (of_int position / 4096) * 360)"

definition mode_names :: "int \<rightharpoonup> string" where
  "mode_names = [0 \<mapsto> ''Position Servo'', 1 \<mapsto> ''Constant Speed Motor'',
                 2 \<mapsto> ''PWM Open-Loop'', 3 \<mapsto> ''Step Servo'']"

text \<open>The body of the loop over the servos found (l.53 to l.89), and the loop.\<close>

definition report_servo :: "'s driver \<Rightarrow> 's \<Rightarrow> int \<Rightarrow> 's \<times> event list" where
  "report_servo servo_bus s servo_id =
     (let (position, s1) = ReadPosition servo_bus s servo_id;
          (voltage, s2) = ReadVoltage servo_bus s1 servo_id;
          (temperature, s3) = ReadTemperature servo_bus s2 servo_id;
          (mode, s4) = ReadMode servo_bus s3 servo_id;
          (load, s5) = ReadLoad servo_bus s4 servo_id
      in (s5,
          [EvPrint (Servo_id servo_id), EvReadPosition servo_id position] @
          (case position of None \<Rightarrow> []
           | Some p \<Rightarrow> [EvPrint (Position_line p (format_1f (degrees p)))]) @
          [EvReadVoltage servo_id voltage] @
          (case voltage of None \<Rightarrow> [] | Some v \<Rightarrow> [EvPrint (Voltage_line (format_1f v))]) @
          [EvReadTemperature servo_id temperature] @
          (case temperature of None \<Rightarrow> [] | Some c \<Rightarrow> [EvPrint (Temperature_line c)]) @
          [EvReadMode servo_id mode] @
          (case mode of None \<Rightarrow> []
           | Some m \<Rightarrow> [EvPrint (Mode_line (case mode_names m of Some name \<Rightarrow> Named name
                                                | None \<Rightarrow> Unknown m))]) @
          [EvReadLoad servo_id load] @
          (case load of None \<Rightarrow> [] | Some l \<Rightarrow> [EvPrint (Load_line (format_1f l))]) @
          [EvPrint Blank]))"




subsection \<open>A simulated bus\<close>

text \<open>
  A driver to run the model on: the connection state is the list of identifiers on the
  bus, only \<^verbatim>\<open>/dev/ttyUSB0\<close> opens, a ping answers whether the identifier is present,
  and \<open>ChangeId\<close> renames a present identifier. \<open>mute\<close> is an identifier that takes the
  write and then answers no ping.
\<close>

definition sim_bus :: "int list \<Rightarrow> int \<Rightarrow> (int list) driver" where
  "sim_bus ids mute =
     \<lparr> ST3215 = (\<lambda>port. if port = ''/dev/ttyUSB0'' then Inr ids else Inl ''No such file''),
       PingServo = (\<lambda>s i. (i \<in> set s \<and> i \<noteq> mute, s)),
       ListServos = (\<lambda>s. (s, s)),
       ChangeId = (\<lambda>s a b. if a \<in> set s then (None, map (\<lambda>x. if x = a then b else x) s)
                            else (Some ''no status packet'', s)),
       ReadPosition = (\<lambda>s i. (if i \<in> set s then Some 2048 else None, s)),
       ReadVoltage = (\<lambda>s i. (if i \<in> set s then Some (15 / 2) else None, s)),
       ReadTemperature = (\<lambda>s i. (if i \<in> set s then Some 30 else None, s)),
       ReadMode = (\<lambda>s i. (if i \<in> set s then Some 0 else None, s)),
       ReadLoad = (\<lambda>s i. (if i \<in> set s then Some 0 else None, s)) \<rparr>"

definition env_set :: "string \<rightharpoonup> string" where
  "env_set = [''ST3215_DEV'' \<mapsto> ''/dev/ttyUSB0'']"


section \<open>Properties\<close>

subsection \<open>The simulated bus at work\<close>

lemma env_set_port: "get_serial_port env_set = Inr ''/dev/ttyUSB0''"
  by (simp add: get_serial_port_def env_set_def)

lemma sim_bus_open: "ST3215 (sim_bus ids mute) ''/dev/ttyUSB0'' = Inr ids"
  by (simp add: sim_bus_def)

lemma sim_bus_ping: "PingServo (sim_bus ids mute) s i = (i \<in> set s \<and> i \<noteq> mute, s)"
  by (simp add: sim_bus_def)

lemma sim_bus_list: "ListServos (sim_bus ids mute) s = (s, s)"
  by (simp add: sim_bus_def)


subsection \<open>The ID-change workflow\<close>

text \<open>
  The ID-change workflow is \<open>change_servo_id\<close>, what direct mode runs. Its preconditions
  come in order: the port is configured, the connection opens, then the checks on the
  bus; the claims about those checks are stated for a run that has an open connection.
\<close>

text \<open>
  Claim C1 (collision guard). In every execution of \<open>change_servo_id\<close> on an open
  connection, if \<open>new_id\<close> differs from \<open>current_id\<close> and the presence check on
  \<open>new_id\<close> (the ping the workflow makes after the one on \<open>current_id\<close>) succeeds, the
  workflow returns \<^verbatim>\<open>False\<close> and its trace holds no \<open>ChangeId\<close> call.
\<close>

theorem collision_guard:
  assumes "get_serial_port environ = Inr port"
    and "ST3215 servo_bus port = Inr s"
    and "PingServo servo_bus s current_id = (present, s1)"
    and "new_id \<noteq> current_id"
    and "fst (PingServo servo_bus s1 new_id)"
  shows "fst (change_servo_id servo_bus environ current_id new_id) = Inr False \<and>
         filter is_change (snd (change_servo_id servo_bus environ current_id new_id)) = []"
  using assms
  by (auto simp: change_servo_id_def change_on_bus_def Let_def split: prod.splits)

theorem collision_guard_witness:
  "get_serial_port env_set = Inr ''/dev/ttyUSB0'' \<and>
   ST3215 (sim_bus [5, 9] 0) ''/dev/ttyUSB0'' = Inr [5, 9] \<and>
   PingServo (sim_bus [5, 9] 0) [5, 9] 5 = (True, [5, 9]) \<and>
   (9 :: int) \<noteq> 5 \<and>
   fst (PingServo (sim_bus [5, 9] 0) [5, 9] 9) \<and>
   fst (change_servo_id (sim_bus [5, 9] 0) env_set 5 9) = Inr False \<and>
   filter is_change (snd (change_servo_id (sim_bus [5, 9] 0) env_set 5 9)) = []"
proof -
  have a: "ST3215 (sim_bus [5, 9] 0) ''/dev/ttyUSB0'' = Inr [5, 9]"
    by (rule sim_bus_open)
  have b: "PingServo (sim_bus [5, 9] 0) [5, 9] 5 = (True, [5, 9])"
    by (simp add: sim_bus_ping)
  have c: "(9 :: int) \<noteq> 5"
    by simp
  have d: "fst (PingServo (sim_bus [5, 9] 0) [5, 9] 9)"
    by (simp add: sim_bus_ping)
  from collision_guard [OF env_set_port a b c d] env_set_port a b c d show ?thesis
    by blast
qed

text \<open>
  Claim C2. In every execution of \<open>change_servo_id\<close> on an open connection, if the
  presence check on \<open>current_id\<close> fails, the workflow reports that no servo has this
  ID, returns \<^verbatim>\<open>False\<close>, and its trace holds no \<open>ChangeId\<close> call.
\<close>

theorem absent_servo_no_write:
  assumes "get_serial_port environ = Inr port"
    and "ST3215 servo_bus port = Inr s"
    and "\<not> fst (PingServo servo_bus s current_id)"
  shows "fst (change_servo_id servo_bus environ current_id new_id) = Inr False \<and>
         EvPrint (No_servo_with_id current_id)
           \<in> set (snd (change_servo_id servo_bus environ current_id new_id)) \<and>
         filter is_change (snd (change_servo_id servo_bus environ current_id new_id)) = []"
  using assms
  by (auto simp: change_servo_id_def change_on_bus_def Let_def split: prod.splits)

theorem absent_servo_no_write_witness:
  "get_serial_port env_set = Inr ''/dev/ttyUSB0'' \<and>
   ST3215 (sim_bus [5] 0) ''/dev/ttyUSB0'' = Inr [5] \<and>
   \<not> fst (PingServo (sim_bus [5] 0) [5] 2) \<and>
   fst (change_servo_id (sim_bus [5] 0) env_set 2 9) = Inr False \<and>
   EvPrint (No_servo_with_id 2) \<in> set (snd (change_servo_id (sim_bus [5] 0) env_set 2 9)) \<and>
   filter is_change (snd (change_servo_id (sim_bus [5] 0) env_set 2 9)) = []"
proof -
  have a: "ST3215 (sim_bus [5] 0) ''/dev/ttyUSB0'' = Inr [5]"
    by (rule sim_bus_open)
  have b: "\<not> fst (PingServo (sim_bus [5] 0) [5] 2)"
    by (simp add: sim_bus_ping)
  from absent_servo_no_write [OF env_set_port a b, of 9] env_set_port a b show ?thesis
    by blast
qed

text \<open>
  Claim C3. \<open>find_single_servo\<close> is a trichotomy over the list that \<open>ListServos\<close>
  returns. It reports "no servos found" (and returns \<^verbatim>\<open>None\<close>) exactly when the list
  is empty; it reports the servos found and asks for a single one (and returns
  \<^verbatim>\<open>None\<close>) exactly when the list has more than one element; it returns the sole
  identifier exactly when the list has one element. The two outcomes without an
  identifier share the return value and are told apart by the report.
\<close>

theorem find_single_servo_trichotomy:
  assumes "ListServos servo_bus s = (servo_ids, s1)"
    and "find_single_servo servo_bus s = (r, s2, t)"
  shows "((r = None \<and> EvPrint No_servos_found \<in> set t) \<longleftrightarrow> servo_ids = []) \<and>
         ((r = None \<and> EvPrint (Found_n_servos (length servo_ids) servo_ids) \<in> set t)
            \<longleftrightarrow> length servo_ids > 1) \<and>
         ((\<exists>i. r = Some i \<and> servo_ids = [i]) \<longleftrightarrow> length servo_ids = 1)"
  using assms
  by (cases servo_ids; cases "tl servo_ids")
     (auto simp: find_single_servo_def Let_def split: prod.splits if_splits)

theorem find_single_servo_trichotomy_witness:
  "ListServos (sim_bus [3, 7] 0) [3, 7] = ([3, 7], [3, 7]) \<and>
   find_single_servo (sim_bus [3, 7] 0) [3, 7] =
     (None, [3, 7], [EvPrint Scanning_for_servos, EvList [3, 7],
                     EvPrint (Found_n_servos 2 [3, 7]), EvPrint Connect_only_one,
                     EvPrint Disconnect_all_but_one]) \<and>
   EvPrint (Found_n_servos (length [3, 7 :: int]) [3, 7])
     \<in> set [EvPrint Scanning_for_servos, EvList [3, 7],
            EvPrint (Found_n_servos 2 [3, 7]), EvPrint Connect_only_one,
            EvPrint Disconnect_all_but_one]"
proof -
  have a: "ListServos (sim_bus [3, 7] 0) [3, 7] = ([3, 7], [3, 7])"
    by (rule sim_bus_list)
  have b: "find_single_servo (sim_bus [3, 7] 0) [3, 7] =
     (None, [3, 7], [EvPrint Scanning_for_servos, EvList [3, 7],
                     EvPrint (Found_n_servos 2 [3, 7]), EvPrint Connect_only_one,
                     EvPrint Disconnect_all_but_one])"
    by (simp add: find_single_servo_def sim_bus_list)
  from find_single_servo_trichotomy [OF a b] a b show ?thesis
    by simp
qed



subsection \<open>The prompt loop and interactive mode\<close>





lemma prompt_loop_no_change:
  "filter is_change (fst (snd (prompt_loop current_id stdin))) = []"
  by (induction stdin) (auto simp: Let_def split: option.splits prod.splits)

lemma find_single_servo_no_change:
  "filter is_change (snd (snd (find_single_servo servo_bus s))) = []"
  by (auto simp: find_single_servo_def Let_def split: prod.splits)

lemma change_on_bus_once:
  assumes "change_on_bus servo_bus s current_id new_id = (r, t)"
  shows "length (filter is_change t) \<le> 1"
proof -
  have "length (filter is_change (snd (change_on_bus servo_bus s current_id new_id))) \<le> 1"
    by (auto simp: change_on_bus_def Let_def split: prod.splits option.splits)
  with assms show ?thesis by simp
qed

lemma confirm_and_change_once:
  assumes "confirm_and_change servo_bus s current_id new_id stdin = (r, t)"
  shows "length (filter is_change t) \<le> 1"
proof -
  have "length (filter is_change
          (snd (confirm_and_change servo_bus s current_id new_id stdin))) \<le> 1"
    by (auto simp: confirm_and_change_def Let_def split: prod.splits option.splits list.splits)
  with assms show ?thesis by simp
qed

lemma interactive_on_bus_once:
  "interactive_on_bus servo_bus s stdin = (r, t) \<Longrightarrow> length (filter is_change t) \<le> 1"
proof -
  assume run: "interactive_on_bus servo_bus s stdin = (r, t)"
  obtain found s1 t1 where f: "find_single_servo servo_bus s = (found, s1, t1)"
    by (cases "find_single_servo servo_bus s") auto
  with find_single_servo_no_change [of servo_bus s] have t1: "filter is_change t1 = []"
    by simp
  show ?thesis
  proof (cases found)
    case None
    with f t1 run show ?thesis by (auto simp: interactive_on_bus_def)
  next
    case (Some current_id)
    obtain e t3 rest where p: "prompt_loop current_id stdin = (e, t3, rest)"
      by (cases "prompt_loop current_id stdin") auto
    with prompt_loop_no_change [of current_id stdin] have t3: "filter is_change t3 = []"
      by simp
    from f Some p t1 t3 run show ?thesis
      by (cases e)
         (auto simp: interactive_on_bus_def Let_def split: prod.splits option.splits
               dest: confirm_and_change_once)
  qed
qed

lemma interactive_mode_once:
  assumes "interactive_mode servo_bus environ stdin = (r, t)"
  shows "length (filter is_change t) \<le> 1"
  using assms
  by (auto simp: interactive_mode_def Let_def split: sum.splits prod.splits
           dest: interactive_on_bus_once)

lemma change_servo_id_once:
  assumes "change_servo_id servo_bus environ current_id new_id = (r, t)"
  shows "length (filter is_change t) \<le> 1"
  using assms
  by (auto simp: change_servo_id_def Let_def split: sum.splits prod.splits
           dest: change_on_bus_once)











subsection \<open>Direct mode\<close>






subsection \<open>The missing serial port\<close>




subsection \<open>The whole program\<close>

text \<open>
  Claim C10. In every run of the ID changer, interactive or direct, whatever the
  arguments, the input and the driver, the trace holds at most one \<open>ChangeId\<close> call.
\<close>

theorem change_id_at_most_once:
  "length (filter is_change (snd (main servo_bus environ argv stdin))) \<le> 1"
  by (auto simp: main_def split: sum.splits prod.splits option.splits
           dest: interactive_mode_once change_servo_id_once)

theorem change_id_at_most_once_witness:
  "length (filter is_change
     (snd (main (sim_bus [5] 0) env_set [''change_id.py'', ''5'', ''9''] []))) \<le> 1 \<and>
   EvChangeId 5 9 None
     \<in> set (snd (main (sim_bus [5] 0) env_set [''change_id.py'', ''5'', ''9''] []))"
proof -
  have "EvChangeId 5 9 None
     \<in> set (snd (main (sim_bus [5] 0) env_set [''change_id.py'', ''5'', ''9''] []))"
    by code_simp
  with change_id_at_most_once [of "sim_bus [5] 0" env_set "[''change_id.py'', ''5'', ''9'']" "[]"]
  show ?thesis
    by simp
qed

subsection \<open>The reporter: position in degrees\<close>

lemma round_half_even_of_int: "round_half_even (of_int n) = n"
  by (simp add: round_half_even_def)

text \<open>\<open>ilog2\<close> is the exponent: the two bounds that define it.\<close>

lemma ilog2_lower:
  assumes "0 < q"
  shows "2 powi (ilog2 q) \<le> q"
proof (cases "1 \<le> q")
  case True
  then have pos: "0 < \<lfloor>q\<rfloor>"
    by simp
  then have "bitlen \<lfloor>q\<rfloor> \<noteq> 0"
    by (simp add: bitlen_eq_zero_iff)
  with bitlen_nonneg [of "\<lfloor>q\<rfloor>"] have nn: "0 \<le> bitlen \<lfloor>q\<rfloor> - 1"
    by simp
  from bitlen_bounds [OF pos] have "2 ^ nat (bitlen \<lfloor>q\<rfloor> - 1) \<le> \<lfloor>q\<rfloor>" ..
  then have "(of_int (2 ^ nat (bitlen \<lfloor>q\<rfloor> - 1)) :: rat) \<le> of_int \<lfloor>q\<rfloor>"
    by (simp only: of_int_le_iff)
  also have "\<dots> \<le> q"
    by simp
  finally have "(2 :: rat) ^ nat (bitlen \<lfloor>q\<rfloor> - 1) \<le> q"
    by simp
  with True nn show ?thesis
    by (simp add: ilog2_def power_int_def)
next
  case False
  define n where "n = \<lceil>1 / q\<rceil> - 1"
  from False assms have "1 < 1 / q"
    by simp
  then have "1 < \<lceil>1 / q\<rceil>"
    by (simp add: less_ceiling_iff)
  then have pos: "0 < n"
    by (simp add: n_def)
  from bitlen_bounds [OF pos] have "n < 2 ^ nat (bitlen n)" ..
  then have "\<lceil>1 / q\<rceil> \<le> 2 ^ nat (bitlen n)"
    by (simp add: n_def)
  then have "(of_int \<lceil>1 / q\<rceil> :: rat) \<le> of_int (2 ^ nat (bitlen n))"
    by (simp only: of_int_le_iff)
  with le_of_int_ceiling [of "1 / q"] have "1 / q \<le> of_int (2 ^ nat (bitlen n))"
    by (rule order_trans)
  then have "1 / q \<le> 2 ^ nat (bitlen n)"
    by simp
  with assms have "1 / 2 ^ nat (bitlen n) \<le> q"
    by (simp add: field_simps)
  moreover have "(2 :: rat) powi (bitlen n) = 2 ^ nat (bitlen n)"
    using bitlen_nonneg [of n] by (simp add: power_int_def)
  then have "(2 :: rat) powi (- bitlen n) = 1 / 2 ^ nat (bitlen n)"
    by (simp only: power_int_minus_divide)
  ultimately show ?thesis
    using False by (simp add: ilog2_def n_def)
qed

lemma ilog2_upper:
  assumes "0 < q"
  shows "q < 2 powi (ilog2 q + 1)"
proof (cases "1 \<le> q")
  case True
  then have pos: "0 < \<lfloor>q\<rfloor>"
    by simp
  from bitlen_bounds [OF pos] have "\<lfloor>q\<rfloor> < 2 ^ nat (bitlen \<lfloor>q\<rfloor>)" ..
  then have "q < of_int (2 ^ nat (bitlen \<lfloor>q\<rfloor>))"
    by (simp only: floor_less_iff)
  with True bitlen_nonneg [of "\<lfloor>q\<rfloor>"] show ?thesis
    by (simp add: ilog2_def power_int_def)
next
  case False
  define n where "n = \<lceil>1 / q\<rceil> - 1"
  from False assms have "1 < 1 / q"
    by simp
  then have "1 < \<lceil>1 / q\<rceil>"
    by (simp add: less_ceiling_iff)
  then have pos: "0 < n"
    by (simp add: n_def)
  then have "bitlen n \<noteq> 0"
    by (simp add: bitlen_eq_zero_iff)
  with bitlen_nonneg [of n] have nn: "0 \<le> bitlen n - 1"
    by simp
  from bitlen_bounds [OF pos] have "2 ^ nat (bitlen n - 1) \<le> n" ..
  then have "2 ^ nat (bitlen n - 1) < \<lceil>1 / q\<rceil>"
    by (simp add: n_def)
  then have "(of_int (2 ^ nat (bitlen n - 1)) :: rat) < 1 / q"
    by (simp only: less_ceiling_iff)
  with assms have "q < 1 / 2 ^ nat (bitlen n - 1)"
    by (simp add: field_simps)
  moreover have "(2 :: rat) powi (- bitlen n + 1) = 1 / 2 ^ nat (bitlen n - 1)"
    using nn power_int_minus_divide [of "2 :: rat" "bitlen n - 1"] by (simp add: power_int_def)
  ultimately show ?thesis
    using False by (simp add: ilog2_def n_def)
qed

text \<open>
  A number with a significand of at most 53 bits is a float, and rounding leaves it as
  it is.
\<close>

lemma fl_exact:
  assumes "\<bar>m\<bar> < 2 ^ 53"
  shows "fl (of_int m / 2 ^ k) = of_int m / 2 ^ k"
proof (cases "m = 0")
  case True
  then show ?thesis
    by (simp add: fl_def)
next
  case False
  define x :: rat where "x = of_int m / 2 ^ k"
  define e where "e = ilog2 \<bar>x\<bar>"
  define u :: rat where "u = 2 powi (e - 52)"
  from False have x0: "x \<noteq> 0"
    by (simp add: x_def)
  then have "2 powi e \<le> \<bar>x\<bar>"
    unfolding e_def by (intro ilog2_lower) simp
  also have "\<bar>x\<bar> = of_int \<bar>m\<bar> / 2 ^ k"
    by (simp add: x_def)
  also from assms have "(of_int \<bar>m\<bar> :: rat) < of_int (2 ^ 53)"
    by (simp only: of_int_less_iff)
  then have "(of_int \<bar>m\<bar> :: rat) / 2 ^ k < 2 ^ 53 / 2 ^ k"
    by (simp add: divide_strict_right_mono)
  also have "(2 :: rat) ^ 53 / 2 ^ k = 2 powi (53 - int k)"
    by (simp add: power_int_diff)
  finally have "(2 :: rat) powi e < 2 powi (53 - int k)" .
  then have "e < 53 - int k"
    using power_int_increasing [of "53 - int k" e "2 :: rat"] by (cases "e < 53 - int k") auto
  then have d: "0 \<le> 52 - e - int k"
    by simp
  have u0: "u \<noteq> 0"
    by (simp add: u_def)
  have "(2 :: rat) powi (52 - e - int k) * 2 powi (e - 52) = 2 powi (- int k)"
    by (simp add: power_int_add [symmetric])
  moreover from d have "(2 :: rat) powi (52 - e - int k) = 2 ^ nat (52 - e - int k)"
    by (simp add: power_int_def)
  moreover have "(2 :: rat) powi (- int k) = 1 / 2 ^ k"
    by (simp add: power_int_minus_divide)
  ultimately have "2 ^ nat (52 - e - int k) * u = 1 / 2 ^ k"
    by (simp add: u_def)
  then have "of_int m * (2 ^ nat (52 - e - int k) * u) = x"
    by (simp add: x_def)
  then have "of_int (m * 2 ^ nat (52 - e - int k)) * u = x"
    by (simp add: mult.assoc)
  with u0 have "x / u = of_int (m * 2 ^ nat (52 - e - int k))"
    by (metis nonzero_mult_div_cancel_right)
  then have "of_int (round_half_even (x / u)) * u = x / u * u"
    by (simp only: round_half_even_of_int)
  with u0 x0 show ?thesis
    unfolding x_def [symmetric] by (simp add: fl_def Let_def e_def [symmetric] u_def [symmetric])
qed

lemma degrees_exact:
  assumes "\<bar>p\<bar> < 2 ^ 47"
  shows "degrees p = of_int p * 360 / 4096"
proof -
  from assms have "\<bar>p\<bar> < 2 ^ 53"
    by simp
  from fl_exact [OF this, of 12] have a: "fl (of_int p / 4096) = of_int p / 4096"
    by simp
  from assms have "\<bar>p * 45\<bar> < 2 ^ 53"
    by (simp add: abs_mult)
  from fl_exact [OF this, of 9]
  have b: "fl (of_int (p * 45) / 2 ^ 9) = of_int (p * 45) / 2 ^ 9" .
  have c: "of_int p / 4096 * 360 = (of_int (p * 45) :: rat) / 2 ^ 9"
    by simp
  have "degrees p = fl (fl (of_int p / 4096) * 360)"
    by (simp only: degrees_def)
  also have "\<dots> = fl (of_int p / 4096 * 360)"
    by (simp only: a)
  also have "\<dots> = fl (of_int (p * 45) / 2 ^ 9)"
    by (simp only: c)
  also have "\<dots> = of_int (p * 45) / 2 ^ 9"
    by (rule b)
  also have "\<dots> = of_int p * 360 / 4096"
    by simp
  finally show ?thesis .
qed

lemma round_half_even_bounds:
  assumes "of_int lo \<le> x" and "x \<le> of_int hi"
  shows "lo \<le> round_half_even x \<and> round_half_even x \<le> hi"
proof -
  from assms(1) have a: "lo \<le> \<lfloor>x\<rfloor>"
    by (simp add: le_floor_iff)
  have b: "\<lfloor>x\<rfloor> + 1 \<le> hi" if "of_int \<lfloor>x\<rfloor> < x"
  proof -
    from that assms(2) have "(of_int \<lfloor>x\<rfloor> :: rat) < of_int hi"
      by simp
    then show ?thesis
      by (simp only: of_int_less_iff)
  qed
  from assms(2) have c: "\<lfloor>x\<rfloor> \<le> hi"
    by (simp add: floor_le_iff) 
  show ?thesis
    using a b c by (auto simp: round_half_even_def Let_def)
qed

text \<open>
  Claim C9. For every position \<open>p\<close> from 0 to 4095, the two float operations of the
  reporter round nothing away: the degrees are exactly \<open>p * 360 / 4096\<close>. The value
  printed with one decimal lies between 0.0 and 360.0, and it is the one on the
  position line of the servo's report.
\<close>

theorem position_to_degrees:
  assumes "0 \<le> p" and "p \<le> 4095"
  shows "degrees p = of_int p * 360 / 4096 \<and>
         0 \<le> format_1f (degrees p) \<and> format_1f (degrees p) \<le> 3600 \<and>
         (ReadPosition servo_bus s servo_id = (Some p, s1) \<longrightarrow>
            EvPrint (Position_line p (format_1f (degrees p)))
              \<in> set (snd (report_servo servo_bus s servo_id)))"
proof -
  from assms have "\<bar>p\<bar> < 2 ^ 47"
    by simp
  then have d: "degrees p = of_int p * 360 / 4096"
    by (rule degrees_exact)
  from assms have "of_int 0 \<le> degrees p * 10" and "degrees p * 10 \<le> of_int 3600"
    by (simp_all add: d)
  then have "0 \<le> round_half_even (degrees p * 10) \<and> round_half_even (degrees p * 10) \<le> 3600"
    by (rule round_half_even_bounds)
  then have f: "0 \<le> format_1f (degrees p) \<and> format_1f (degrees p) \<le> 3600"
    by (simp only: format_1f_def)
  have "EvPrint (Position_line p (format_1f (degrees p)))
          \<in> set (snd (report_servo servo_bus s servo_id))"
    if "ReadPosition servo_bus s servo_id = (Some p, s1)"
    using that by (simp add: report_servo_def Let_def split: prod.splits)
  with d f show ?thesis
    by blast
qed

theorem position_to_degrees_witness:
  "(0 :: int) \<le> 2048 \<and> (2048 :: int) \<le> 4095 \<and>
   ReadPosition (sim_bus [3] 0) [3] 3 = (Some 2048, [3]) \<and>
   degrees 2048 = 180 \<and>
   format_1f (degrees 2048) = 1800 \<and>
   EvPrint (Position_line 2048 1800) \<in> set (snd (report_servo (sim_bus [3] 0) [3] 3))"
proof -
  have a: "(0 :: int) \<le> 2048" and b: "(2048 :: int) \<le> 4095"
    by simp_all
  have c: "ReadPosition (sim_bus [3] 0) [3] 3 = (Some 2048, [3])"
    by (simp add: sim_bus_def)
  note t = position_to_degrees [OF a b, of "sim_bus [3] 0" "[3]" 3 "[3]"]
  from t have d: "degrees 2048 = 180"
    by simp
  from t c have e: "EvPrint (Position_line 2048 (format_1f (degrees 2048)))
              \<in> set (snd (report_servo (sim_bus [3] 0) [3] 3))"
    by blast
  have f: "format_1f (degrees 2048) = 1800"
    unfolding d by code_simp
  from a b c d e f show ?thesis
    by simp
qed

end
